theory Spec2Isabelle
  imports
    Main
    "HOL-Library.Char_ord"
    "HOL-Library.List_Lexorder"
    "HOL-Library.Product_Lexorder"
begin

section \<open>Explosives logbook (app.py): data model\<close>

text \<open>
  The application keeps three lists in its session state: \<open>data\<close> (issuance entries),
  \<open>stock\<close> (stock receipts) and \<open>mines\<close> (the mine registry). The entries are Python
  dictionaries with a fixed set of keys, written by the two entry forms; they are modelled
  as records whose fields are the keys. Quantities are Python integers (the number inputs
  have an integer \<open>min_value\<close> and \<open>step\<close>), hence \<open>int\<close>. A calendar date is the triple
  (year, month, day); the monthly period of a date (\<open>dt.to_period('M')\<close>) is the pair
  (year, month), and both are ordered lexicographically, as dates and periods are.
\<close>

type_synonym date = "nat \<times> nat \<times> nat"

type_synonym period = "nat \<times> nat"

definition to_period_M :: "date \<Rightarrow> period" where
  "to_period_M d = (case d of (y, m, _) \<Rightarrow> (y, m))"

record issuance =
  Date :: date
  Mine :: string
  Issued_By :: string
  Received_By :: string
  Remarks :: string
  Wabox_Cartridges :: int
  Detonators :: int
  Safety_Fuse :: int

record stock_receipt =
  Serial_No :: string
  Receiving_Date :: date
  Explosive_Type :: string
  Quantity :: int


section \<open>Stock balance (get_stock_balance)\<close>








section \<open>Reports (get_reports)\<close>

text \<open>
  The three aggregate reports are \<open>groupby(keys)[quantity columns].sum().reset_index()\<close>:
  one row per distinct key, in ascending key order, carrying the three column sums of the
  rows with that key. A report row is the pair of its key and its sums (Wabox Cartridges,
  Detonators, Safety Fuse (m)). Strings are ordered lexicographically by character code,
  composite keys lexicographically by component.
\<close>

type_synonym totals = "int \<times> int \<times> int"

definition sum_columns :: "issuance list \<Rightarrow> totals" where
  "sum_columns rows =
     (sum_list (map Wabox_Cartridges rows), sum_list (map Detonators rows),
      sum_list (map Safety_Fuse rows))"

definition groupby_sum :: "(issuance \<Rightarrow> 'k::linorder) \<Rightarrow> issuance list \<Rightarrow> ('k \<times> totals) list" where
  "groupby_sum key rows =
     map (\<lambda>k. (k, sum_columns (filter (\<lambda>r. key r = k) rows))) (sort (remdups (map key rows)))"

record reports =
  Summary :: "(string \<times> totals) list"
  Monthly :: "((period \<times> string) \<times> totals) list"
  Mine_wise :: "((string \<times> period) \<times> totals) list"
  All_Data :: "(issuance \<times> period) list"

definition get_reports :: "issuance list \<Rightarrow> reports" where
  "get_reports rows =
     (if rows \<noteq> [] then
        \<lparr>Summary = groupby_sum Mine rows,
         Monthly = groupby_sum (\<lambda>r. (to_period_M (Date r), Mine r)) rows,
         Mine_wise = groupby_sum (\<lambda>r. (Mine r, to_period_M (Date r))) rows,
         All_Data = map (\<lambda>r. (r, to_period_M (Date r))) rows\<rparr>
      else \<lparr>Summary = [], Monthly = [], Mine_wise = [], All_Data = []\<rparr>)"

text \<open>Adding two rows of sums column by column.\<close>

definition add_totals :: "totals \<Rightarrow> totals \<Rightarrow> totals" where
  "add_totals a b = (case (a, b) of ((w, d, f), (w', d', f')) \<Rightarrow> (w + w', d + d', f + f'))"

section \<open>Durable files (save_csv_data)\<close>

text \<open>
  What is handed to \<open>save_csv_data\<close> is a list of dictionaries. A dictionary is the list of
  its (key, value) pairs in insertion order. A DataFrame is its ordered column labels
  together with its rows; the cell of a row in a column the row has no key for is NaN.
  A written file is its header line and its data lines, cell by cell (quoting and number
  formatting of the CSV text are not modelled).
\<close>

datatype cell = Str string | Num int | Day date | NaN

type_synonym row = "(string \<times> cell) list"

type_synonym dataframe = "string list \<times> row list"

type_synonym csv = "string list \<times> cell list list"

datatype py_error = KeyError

definition cell_of :: "row \<Rightarrow> string \<Rightarrow> cell" where
  "cell_of r c = (case map_of r c of None \<Rightarrow> NaN | Some v \<Rightarrow> v)"

text \<open>\<open>pd.DataFrame(list of dicts)\<close>: the columns are the keys in order of first
  appearance.\<close>

definition DataFrame :: "row list \<Rightarrow> dataframe" where
  "DataFrame rows = (rev (remdups (rev (concat (map (map fst) rows)))), rows)"

text \<open>\<open>df.empty\<close>: no columns or no rows.\<close>

definition df_empty :: "dataframe \<Rightarrow> bool" where
  "df_empty df = (fst df = [] \<or> snd df = [])"

text \<open>\<open>df[columns]\<close>: the frame with exactly the given columns in the given order;
  \<open>KeyError\<close> when a requested label is not a column.\<close>

definition getitem_columns :: "dataframe \<Rightarrow> string list \<Rightarrow> py_error + dataframe" where
  "getitem_columns df cols =
     (if set cols \<subseteq> set (fst df) then Inr (cols, snd df) else Inl KeyError)"

text \<open>\<open>df.to_csv(file, index=False)\<close>: the header line, then one line per row.\<close>

definition to_csv :: "dataframe \<Rightarrow> csv" where
  "to_csv df = (fst df, map (\<lambda>r. map (cell_of r) (fst df)) (snd df))"

text \<open>
  \<open>save_csv_data(file, data, columns)\<close>. The first argument tells whether the file system
  accepts the write (\<open>mkdir\<close> and \<open>to_csv\<close>); the second is the file's content before the
  call (\<open>None\<close>: no file). Every exception is swallowed, and then the file is left as it was.
\<close>

definition save_csv_data :: "bool \<Rightarrow> csv option \<Rightarrow> row list \<Rightarrow> string list \<Rightarrow> csv option" where
  "save_csv_data fs_ok file rows cols =
     (let df = DataFrame rows in
      case (if \<not> df_empty df then getitem_columns df cols else Inr df) of
        Inl _ \<Rightarrow> file
      | Inr df' \<Rightarrow> if fs_ok then Some (to_csv df') else file)"

definition issuance_columns :: "string list" where
  "issuance_columns =
     [''Date'', ''Mine'', ''Issued By'', ''Received By'', ''Remarks'',
      ''Wabox Cartridges'', ''Detonators'', ''Safety Fuse (m)'']"

definition stock_columns :: "string list" where
  "stock_columns = [''Serial No'', ''Receiving Date'', ''Explosive Type'', ''Quantity'']"

text \<open>The dictionaries the two forms append (the dict literals of the submit blocks).\<close>

definition issuance_row :: "issuance \<Rightarrow> row" where
  "issuance_row e =
     [(''Date'', Day (Date e)), (''Mine'', Str (Mine e)), (''Issued By'', Str (Issued_By e)),
      (''Received By'', Str (Received_By e)), (''Remarks'', Str (Remarks e)),
      (''Wabox Cartridges'', Num (Wabox_Cartridges e)), (''Detonators'', Num (Detonators e)),
      (''Safety Fuse (m)'', Num (Safety_Fuse e))]"

definition stock_row :: "stock_receipt \<Rightarrow> row" where
  "stock_row r =
     [(''Serial No'', Str (Serial_No r)), (''Receiving Date'', Day (Receiving_Date r)),
      (''Explosive Type'', Str (Explosive_Type r)), (''Quantity'', Num (Quantity r))]"

text \<open>The data lines a complete, projected file has for the two kinds of record.\<close>

definition issuance_line :: "issuance \<Rightarrow> cell list" where
  "issuance_line e =
     [Day (Date e), Str (Mine e), Str (Issued_By e), Str (Received_By e), Str (Remarks e),
      Num (Wabox_Cartridges e), Num (Detonators e), Num (Safety_Fuse e)]"

definition stock_line :: "stock_receipt \<Rightarrow> cell list" where
  "stock_line r =
     [Str (Serial_No r), Day (Receiving_Date r), Str (Explosive_Type r), Num (Quantity r)]"

section \<open>Session state and the entry forms\<close>

text \<open>
  The state is the three session lists and the content of the two files. The messages the
  forms show (\<open>st.success\<close>, \<open>st.warning\<close>) are kept by kind and arguments, not as
  formatted text.
\<close>

record app_state =
  mines :: "string list"
  data :: "issuance list"
  stock :: "stock_receipt list"
  issuance_file :: "csv option"
  stock_file :: "csv option"

datatype feedback =
    Added_mine string
  | Mine_already_exists
  | Renamed string string
  | Entry_added string date
  | Added_stock string int
  | Enter_serial_and_quantity

fun is_warning :: "feedback \<Rightarrow> bool" where
  "is_warning Mine_already_exists = True"
| "is_warning Enter_serial_and_quantity = True"
| "is_warning _ = False"

text \<open>A fresh session with no files on disk: both loads give the empty list.\<close>

definition initial_state :: app_state where
  "initial_state =
     \<lparr>mines = [''Mine1'', ''Mine2'', ''Mine3''], data = [], stock = [],
      issuance_file = None, stock_file = None\<rparr>"

text \<open>The form \<open>add_mine_form\<close>: the button state and the text typed.\<close>

definition add_mine_form :: "bool \<Rightarrow> string \<Rightarrow> app_state \<Rightarrow> app_state \<times> feedback list" where
  "add_mine_form add_mine_btn new_mine s =
     (if add_mine_btn \<and> new_mine \<noteq> [] then
        (if new_mine \<notin> set (mines s)
         then (s\<lparr>mines := mines s @ [new_mine]\<rparr>, [Added_mine new_mine])
         else (s, [Mine_already_exists]))
      else (s, []))"

text \<open>\<open>st.text_input(label, value=v)\<close>: the text typed into the box, or the default
  \<open>v\<close> when the box was left as rendered.\<close>

definition text_input :: "string \<Rightarrow> string option \<Rightarrow> string" where
  "text_input v typed = (case typed of None \<Rightarrow> v | Some t \<Rightarrow> t)"

text \<open>One pass of the body of the rename loop, for the box of index \<open>i\<close> holding
  \<open>new_name\<close>. The loop only runs it for indexes of the registry.\<close>

definition rename_mine :: "nat \<Rightarrow> string \<Rightarrow> app_state \<Rightarrow> app_state \<times> feedback list" where
  "rename_mine i new_name s =
     (let mine = mines s ! i in
      if new_name \<noteq> mine \<and> new_name \<noteq> [] then
        (s\<lparr>data := map (\<lambda>entry. if Mine entry = mine then entry\<lparr>Mine := new_name\<rparr> else entry)
                     (data s),
           mines := (mines s)[i := new_name]\<rparr>,
         [Renamed mine new_name])
      else (s, []))"

text \<open>The rename block of the sidebar: one text box per registry entry, visited in
  registry order; \<open>typed i\<close> is what the user typed into box \<open>i\<close>, if anything.\<close>

definition rename_mines :: "(nat \<Rightarrow> string option) \<Rightarrow> app_state \<Rightarrow> app_state \<times> feedback list" where
  "rename_mines typed s =
     (if mines s \<noteq> [] then
        fold (\<lambda>i (s', shown).
               case rename_mine i (text_input (mines s' ! i) (typed i)) s' of
                 (s'', msgs) \<Rightarrow> (s'', shown @ msgs))
          [0..<length (mines s)] (s, [])
      else (s, []))"

text \<open>Renaming the mine of index \<open>i\<close>: the user types the new name into that mine's box
  and leaves every other box as rendered.\<close>

definition renameMine :: "nat \<Rightarrow> string \<Rightarrow> app_state \<Rightarrow> app_state \<times> feedback list" where
  "renameMine i new_name s = rename_mines ((\<lambda>_. None)(i := Some new_name)) s"

text \<open>The form \<open>entry_form\<close>: the draft is the values of the form's widgets.\<close>

definition entry_form :: "bool \<Rightarrow> bool \<Rightarrow> issuance \<Rightarrow> app_state \<Rightarrow> app_state \<times> feedback list" where
  "entry_form fs_ok submitted draft s =
     (if submitted then
        (let s' = s\<lparr>data := data s @ [draft]\<rparr> in
         (s'\<lparr>issuance_file :=
               save_csv_data fs_ok (issuance_file s') (map issuance_row (data s'))
                 issuance_columns\<rparr>,
          [Entry_added (Mine draft) (Date draft)]))
      else (s, []))"

text \<open>The form \<open>add_stock_form\<close>.\<close>

definition add_stock_form :: "bool \<Rightarrow> bool \<Rightarrow> stock_receipt \<Rightarrow> app_state \<Rightarrow> app_state \<times> feedback list" where
  "add_stock_form fs_ok add_stock_btn draft s =
     (if add_stock_btn \<and> Quantity draft > 0 \<and> Serial_No draft \<noteq> [] then
        (let s' = s\<lparr>stock := stock s @ [draft]\<rparr> in
         (s'\<lparr>stock_file :=
               save_csv_data fs_ok (stock_file s') (map stock_row (stock s')) stock_columns\<rparr>,
          [Added_stock (Explosive_Type draft) (Quantity draft)]))
      else if add_stock_btn then (s, [Enter_serial_and_quantity])
      else (s, []))"

section \<open>Example session\<close>

text \<open>Concrete entries and states, used to run the operations on explicit inputs.\<close>

definition example_entry :: "string \<Rightarrow> date \<Rightarrow> int \<Rightarrow> issuance" where
  "example_entry m d w =
     \<lparr>Date = d, Mine = m, Issued_By = ''Asha'', Received_By = ''Ravi'', Remarks = [],
      Wabox_Cartridges = w, Detonators = 0, Safety_Fuse = 0\<rparr>"

definition example_receipt :: "string \<Rightarrow> int \<Rightarrow> stock_receipt" where
  "example_receipt serial q =
     \<lparr>Serial_No = serial, Receiving_Date = (2024, 3, 1), Explosive_Type = ''Detonators'',
      Quantity = q\<rparr>"

definition example_log :: app_state where
  "example_log =
     initial_state\<lparr>data :=
       [example_entry ''Mine1'' (2024, 3, 14) 5, example_entry ''Mine1'' (2024, 4, 2) 3,
        example_entry ''Mine2'' (2024, 3, 20) 2]\<rparr>"

section \<open>Properties of the stock balance\<close>





















section \<open>Properties of the rename block\<close>

lemma rename_mine_default:
  "rename_mine j (text_input (mines s ! j) None) s = (s, [])"
  by (simp add: rename_mine_def text_input_def)

lemma rename_pass_untouched:
  assumes "\<forall>j\<in>set js. typed j = None"
  shows "fold (\<lambda>i (s', shown).
               case rename_mine i (text_input (mines s' ! i) (typed i)) s' of
                 (s'', msgs) \<Rightarrow> (s'', shown @ msgs)) js (s, shown) = (s, shown)"
  using assms by (induction js) (simp_all add: rename_mine_default)

lemma rename_mines_one_box:
  assumes "i < length (mines s)"
  shows "renameMine i new_name s = rename_mine i new_name s"
proof -
  let ?typed = "(\<lambda>_. None)(i := Some new_name)"
  let ?F = "\<lambda>i (s', shown).
               case rename_mine i (text_input (mines s' ! i) (?typed i)) s' of
                 (s'', msgs) \<Rightarrow> (s'', shown @ msgs)"
  have split: "[0..<length (mines s)] = [0..<i] @ i # [Suc i..<length (mines s)]"
    using assms by (metis le0 upt_add_eq_append upt_conv_Cons le_add_diff_inverse less_imp_le_nat)
  have before: "fold ?F [0..<i] (s, []) = (s, [])"
    by (rule rename_pass_untouched) simp
  have at: "?F i (s, []) = rename_mine i new_name s"
    by (simp add: text_input_def split: prod.splits)
  obtain s1 m1 where r: "rename_mine i new_name s = (s1, m1)"
    by (cases "rename_mine i new_name s")
  have after: "fold ?F [Suc i..<length (mines s)] (s1, m1) = (s1, m1)"
    by (rule rename_pass_untouched) simp
  have ne: "mines s \<noteq> []" using assms by auto
  have "renameMine i new_name s = fold ?F [0..<length (mines s)] (s, [])"
    using ne by (simp add: renameMine_def rename_mines_def)
  also have "\<dots> = fold ?F [Suc i..<length (mines s)] (?F i (fold ?F [0..<i] (s, [])))"
    by (simp only: split fold_append fold_Cons comp_apply)
  also have "\<dots> = (s1, m1)"
    by (simp only: before at r after)
  finally show ?thesis by (simp add: r)
qed

lemma rename_mines_no_box:
  assumes "\<not> i < length (mines s)"
  shows "renameMine i new_name s = (s, [])"
proof (cases "mines s = []")
  case True
  then show ?thesis by (simp add: renameMine_def rename_mines_def)
next
  case False
  have "fold (\<lambda>j (s', shown).
               case rename_mine j (text_input (mines s' ! j)
                      (((\<lambda>_. None)(i := Some new_name)) j)) s' of
                 (s'', msgs) \<Rightarrow> (s'', shown @ msgs)) [0..<length (mines s)] (s, []) = (s, [])"
    by (rule rename_pass_untouched) (use assms in auto)
  with False show ?thesis by (simp add: renameMine_def rename_mines_def)
qed

lemma rename_mine_effect:
  "rename_mine i new_name s =
     (if new_name \<noteq> mines s ! i \<and> new_name \<noteq> [] then
        (s\<lparr>data := map (\<lambda>e. if Mine e = mines s ! i then e\<lparr>Mine := new_name\<rparr> else e) (data s),
           mines := (mines s)[i := new_name]\<rparr>,
         [Renamed (mines s ! i) new_name])
      else (s, []))"
  by (simp add: rename_mine_def Let_def)

lemma renameMine_effect:
  "renameMine i new_name s =
     (if i < length (mines s) \<and> new_name \<noteq> mines s ! i \<and> new_name \<noteq> [] then
        (s\<lparr>data := map (\<lambda>e. if Mine e = mines s ! i then e\<lparr>Mine := new_name\<rparr> else e) (data s),
           mines := (mines s)[i := new_name]\<rparr>,
         [Renamed (mines s ! i) new_name])
      else (s, []))"
proof (cases "i < length (mines s)")
  case True
  then show ?thesis by (simp only: rename_mines_one_box rename_mine_effect) simp
next
  case False
  then show ?thesis by (simp add: rename_mines_no_box)
qed

lemma groupby_sum_lookup:
  "map_of (groupby_sum key rows) k =
     (if k \<in> set (map key rows) then Some (sum_columns (filter (\<lambda>r. key r = k) rows))
      else None)"
proof -
  have "map_of (map (\<lambda>k. (k, sum_columns (filter (\<lambda>r. key r = k) rows)))
          (sort (remdups (map key rows)))) k =
        (if k \<in> set (sort (remdups (map key rows)))
         then Some (sum_columns (filter (\<lambda>r. key r = k) rows)) else None)"
    by (simp add: map_of_map_restrict restrict_map_def)
  then show ?thesis by (simp add: groupby_sum_def)
qed

lemma groupby_sum_keys:
  "map fst (groupby_sum key rows) = sort (remdups (map key rows))"
  by (simp add: groupby_sum_def comp_def)

lemma Summary_lookup:
  "map_of (Summary (get_reports rows)) m =
     (if m \<in> set (map Mine rows) then Some (sum_columns (filter (\<lambda>r. Mine r = m) rows))
      else None)"
  by (cases "rows = []") (simp_all add: get_reports_def groupby_sum_lookup)

lemma Summary_keys:
  "set (map fst (Summary (get_reports rows))) = set (map Mine rows)"
  by (cases "rows = []") (simp_all add: get_reports_def groupby_sum_keys)

lemma cascade_totals:
  assumes "old \<noteq> new"
  shows "sum_columns (filter (\<lambda>e. Mine e = new)
           (map (\<lambda>e. if Mine e = old then e\<lparr>Mine := new\<rparr> else e) rows)) =
         add_totals (sum_columns (filter (\<lambda>e. Mine e = old) rows))
           (sum_columns (filter (\<lambda>e. Mine e = new) rows))"
  using assms by (induction rows) (auto simp: sum_columns_def add_totals_def)

lemma cascade_other:
  assumes "m \<noteq> old" "m \<noteq> new"
  shows "filter (\<lambda>e. Mine e = m)
           (map (\<lambda>e. if Mine e = old then e\<lparr>Mine := new\<rparr> else e) rows) =
         filter (\<lambda>e. Mine e = m) rows"
  using assms by (induction rows) auto

lemma cascade_mines:
  "set (map Mine (map (\<lambda>e. if Mine e = old then e\<lparr>Mine := new\<rparr> else e) rows)) =
     (\<lambda>m. if m = old then new else m) ` set (map Mine rows)"
  by (induction rows) auto

text \<open>
  C2. Renaming the mine of registry index \<open>i\<close> to a non-empty, different name replaces that
  registry entry in place and rewrites the mine of every issuance entry that carried the
  old name, in the one state the operation returns: no entry of the old name is left.
  The summary by mine computed afterwards has no row for the old name; the row of the new
  name carries the old name's former sums added to the sums the new name already had; and
  the rows of all other mines are as before.
\<close>

theorem rename_cascade_and_summary:
  assumes "i < length (mines s)" and "new_name \<noteq> []" and "new_name \<noteq> mines s ! i"
  shows "mines (fst (renameMine i new_name s)) = (mines s)[i := new_name]
    \<and> data (fst (renameMine i new_name s)) =
        map (\<lambda>e. if Mine e = mines s ! i then e\<lparr>Mine := new_name\<rparr> else e) (data s)
    \<and> mines s ! i \<notin> set (map Mine (data (fst (renameMine i new_name s))))
    \<and> mines s ! i \<notin> set (map fst (Summary (get_reports (data (fst (renameMine i new_name s))))))
    \<and> map_of (Summary (get_reports (data (fst (renameMine i new_name s))))) new_name =
        (if mines s ! i \<in> set (map Mine (data s)) \<or> new_name \<in> set (map Mine (data s))
         then Some (add_totals (sum_columns (filter (\<lambda>e. Mine e = mines s ! i) (data s)))
                               (sum_columns (filter (\<lambda>e. Mine e = new_name) (data s))))
         else None)
    \<and> (\<forall>m. m \<noteq> mines s ! i \<and> m \<noteq> new_name \<longrightarrow>
          map_of (Summary (get_reports (data (fst (renameMine i new_name s))))) m =
          map_of (Summary (get_reports (data s))) m)"
proof -
  let ?old = "mines s ! i"
  let ?rows = "map (\<lambda>e. if Mine e = ?old then e\<lparr>Mine := new_name\<rparr> else e) (data s)"
  have eff: "fst (renameMine i new_name s) =
               s\<lparr>data := ?rows, mines := (mines s)[i := new_name]\<rparr>"
    using assms by (simp add: renameMine_effect)
  have d: "data (fst (renameMine i new_name s)) = ?rows"
    by (simp add: eff)
  have ms: "set (map Mine ?rows) = (\<lambda>m. if m = ?old then new_name else m) ` set (map Mine (data s))"
    by (rule cascade_mines)
  have gone: "?old \<notin> set (map Mine ?rows)"
    using assms(3) by (auto split: if_splits)
  have present: "new_name \<in> set (map Mine ?rows) \<longleftrightarrow>
                   ?old \<in> set (map Mine (data s)) \<or> new_name \<in> set (map Mine (data s))"
    by (simp only: ms image_iff) (metis (full_types))
  have sums: "sum_columns (filter (\<lambda>e. Mine e = new_name) ?rows) =
                add_totals (sum_columns (filter (\<lambda>e. Mine e = ?old) (data s)))
                           (sum_columns (filter (\<lambda>e. Mine e = new_name) (data s)))"
    using assms(3) by (intro cascade_totals) simp
  have other: "map_of (Summary (get_reports ?rows)) m = map_of (Summary (get_reports (data s))) m"
    if "m \<noteq> ?old \<and> m \<noteq> new_name" for m
  proof -
    have "m \<in> set (map Mine ?rows) \<longleftrightarrow> m \<in> set (map Mine (data s))"
      using that by (simp only: ms) (auto split: if_splits)
    moreover have "filter (\<lambda>e. Mine e = m) ?rows = filter (\<lambda>e. Mine e = m) (data s)"
      using that by (intro cascade_other) simp_all
    ultimately show ?thesis by (simp only: Summary_lookup)
  qed
  have new_row: "map_of (Summary (get_reports ?rows)) new_name =
        (if ?old \<in> set (map Mine (data s)) \<or> new_name \<in> set (map Mine (data s))
         then Some (add_totals (sum_columns (filter (\<lambda>e. Mine e = ?old) (data s)))
                               (sum_columns (filter (\<lambda>e. Mine e = new_name) (data s))))
         else None)"
    by (simp only: Summary_lookup present sums)
  have no_row: "?old \<notin> set (map fst (Summary (get_reports ?rows)))"
    unfolding Summary_keys by (rule gone)
  show ?thesis
    unfolding d using eff gone no_row new_row other by simp
qed

theorem rename_cascade_and_summary_witness:
  "(0::nat) < length (mines example_log) \<and> ''Mine2'' \<noteq> [] \<and> ''Mine2'' \<noteq> mines example_log ! 0
   \<and> map Mine (data (fst (renameMine 0 ''Mine2'' example_log))) = [''Mine2'', ''Mine2'', ''Mine2'']
   \<and> ''Mine1'' \<notin> set (map fst (Summary (get_reports (data (fst (renameMine 0 ''Mine2''
        example_log))))))
   \<and> map_of (Summary (get_reports (data example_log))) ''Mine1'' = Some (8, 0, 0)
   \<and> map_of (Summary (get_reports (data example_log))) ''Mine2'' = Some (2, 0, 0)
   \<and> map_of (Summary (get_reports (data (fst (renameMine 0 ''Mine2'' example_log))))) ''Mine2'' =
       Some (10, 0, 0)"
proof -
  let ?after = "data (fst (renameMine 0 ''Mine2'' example_log))"
  have h: "(0::nat) < length (mines example_log)" "''Mine2'' \<noteq> []"
    "''Mine2'' \<noteq> mines example_log ! 0"
    by (simp_all add: example_log_def initial_state_def)
  have old: "mines example_log ! 0 = ''Mine1''"
    by (simp add: example_log_def initial_state_def)
  have before: "map_of (Summary (get_reports (data example_log))) ''Mine1'' = Some (8, 0, 0)"
    "map_of (Summary (get_reports (data example_log))) ''Mine2'' = Some (2, 0, 0)"
    by (simp_all add: Summary_lookup example_log_def initial_state_def example_entry_def
        sum_columns_def)
  note run = rename_cascade_and_summary [OF h]
  from run have rows: "?after =
      map (\<lambda>e. if Mine e = mines example_log ! 0 then e\<lparr>Mine := ''Mine2''\<rparr> else e)
        (data example_log)"
    by blast
  from run have no_row: "mines example_log ! 0 \<notin> set (map fst (Summary (get_reports ?after)))"
    by blast
  from run have new_row: "map_of (Summary (get_reports ?after)) ''Mine2'' =
      (if mines example_log ! 0 \<in> set (map Mine (data example_log))
          \<or> ''Mine2'' \<in> set (map Mine (data example_log))
       then Some (add_totals
              (sum_columns (filter (\<lambda>e. Mine e = mines example_log ! 0) (data example_log)))
              (sum_columns (filter (\<lambda>e. Mine e = ''Mine2'') (data example_log))))
       else None)"
    by blast
  have g1: "map Mine ?after = [''Mine2'', ''Mine2'', ''Mine2'']"
    unfolding rows by (simp add: example_log_def initial_state_def example_entry_def)
  have g2: "''Mine1'' \<notin> set (map fst (Summary (get_reports ?after)))"
    using no_row unfolding old .
  have g3: "map_of (Summary (get_reports ?after)) ''Mine2'' = Some (10, 0, 0)"
    unfolding new_row
    by (simp add: example_log_def initial_state_def example_entry_def sum_columns_def
        add_totals_def)
  from h g1 g2 before g3 show ?thesis
    by (intro conjI)
qed

section \<open>Properties of the file writer\<close>

lemma DataFrame_columns: "set (fst (DataFrame rows)) = (\<Union>r\<in>set rows. fst ` set r)"
  by (auto simp: DataFrame_def)

lemma DataFrame_rows: "snd (DataFrame rows) = rows"
  by (simp add: DataFrame_def)


lemma save_csv_data_empty: "save_csv_data True file [] cols = Some ([], [])"
  by (simp add: save_csv_data_def DataFrame_def df_empty_def to_csv_def)

lemma save_csv_data_projects:
  assumes "rows \<noteq> []" and "set cols \<subseteq> (\<Union>r\<in>set rows. fst ` set r)"
  shows "save_csv_data True file rows cols = Some (cols, map (\<lambda>r. map (cell_of r) cols) rows)"
proof (cases "df_empty (DataFrame rows)")
  case True
  with assms(1) have none: "fst (DataFrame rows) = []"
    by (simp add: df_empty_def DataFrame_rows)
  have "set cols \<subseteq> set (fst (DataFrame rows))"
    using assms(2) by (simp only: DataFrame_columns)
  with none have "cols = []" by simp
  with True none show ?thesis
    by (simp add: save_csv_data_def Let_def to_csv_def DataFrame_rows)
next
  case False
  moreover have "set cols \<subseteq> set (fst (DataFrame rows))"
    using assms(2) by (simp only: DataFrame_columns)
  ultimately show ?thesis
    by (simp add: save_csv_data_def Let_def getitem_columns_def to_csv_def DataFrame_rows)
qed

lemma save_csv_data_missing_column:
  assumes "\<not> df_empty (DataFrame rows)" and "\<not> set cols \<subseteq> (\<Union>r\<in>set rows. fst ` set r)"
  shows "save_csv_data fs_ok file rows cols = file"
proof -
  have "\<not> set cols \<subseteq> set (fst (DataFrame rows))"
    using assms(2) by (simp add: DataFrame_columns)
  with assms(1) show ?thesis
    by (simp add: save_csv_data_def Let_def getitem_columns_def)
qed

lemma issuance_row_keys: "map fst (issuance_row e) = issuance_columns"
  by (simp add: issuance_row_def issuance_columns_def)

lemma stock_row_keys: "map fst (stock_row r) = stock_columns"
  by (simp add: stock_row_def stock_columns_def)

lemma issuance_row_cells: "map (cell_of (issuance_row e)) issuance_columns = issuance_line e"
  by (simp add: issuance_row_def issuance_columns_def issuance_line_def cell_of_def)

lemma stock_row_cells: "map (cell_of (stock_row r)) stock_columns = stock_line r"
  by (simp add: stock_row_def stock_columns_def stock_line_def cell_of_def)

lemma save_issuance:
  assumes "recs \<noteq> []"
  shows "save_csv_data True file (map issuance_row recs) issuance_columns =
           Some (issuance_columns, map issuance_line recs)"
proof -
  obtain e where e: "e \<in> set recs" using assms by (cases recs) auto
  have "set issuance_columns = fst ` set (issuance_row e)"
    unfolding issuance_row_keys [of e, symmetric] by simp
  with e have sub: "set issuance_columns \<subseteq> (\<Union>r\<in>set (map issuance_row recs). fst ` set r)"
    by auto
  have "save_csv_data True file (map issuance_row recs) issuance_columns =
          Some (issuance_columns,
                map (\<lambda>r. map (cell_of r) issuance_columns) (map issuance_row recs))"
    using assms sub by (intro save_csv_data_projects) simp_all
  then show ?thesis by (simp add: comp_def issuance_row_cells)
qed

lemma save_stock:
  assumes "recs \<noteq> []"
  shows "save_csv_data True file (map stock_row recs) stock_columns =
           Some (stock_columns, map stock_line recs)"
proof -
  obtain r where r: "r \<in> set recs" using assms by (cases recs) auto
  have "set stock_columns = fst ` set (stock_row r)"
    unfolding stock_row_keys [of r, symmetric] by simp
  with r have sub: "set stock_columns \<subseteq> (\<Union>r\<in>set (map stock_row recs). fst ` set r)"
    by auto
  have "save_csv_data True file (map stock_row recs) stock_columns =
          Some (stock_columns, map (\<lambda>r. map (cell_of r) stock_columns) (map stock_row recs))"
    using assms sub by (intro save_csv_data_projects) simp_all
  then show ?thesis by (simp add: comp_def stock_row_cells)
qed

section \<open>Properties of the entry forms\<close>


lemma save_stock_snoc:
  "save_csv_data True file (map stock_row recs @ [stock_row r]) stock_columns =
     Some (stock_columns, map stock_line recs @ [stock_line r])"
  using save_stock [of "recs @ [r]"] by simp

lemma entry_form_submitted:
  "entry_form fs_ok True draft s =
     (s\<lparr>data := data s @ [draft],
        issuance_file :=
          save_csv_data fs_ok (issuance_file s) (map issuance_row (data s @ [draft]))
            issuance_columns\<rparr>,
      [Entry_added (Mine draft) (Date draft)])"
  by (simp add: entry_form_def Let_def)

lemma add_stock_form_accepted:
  assumes "Serial_No draft \<noteq> []" and "0 < Quantity draft"
  shows "add_stock_form fs_ok True draft s =
     (s\<lparr>stock := stock s @ [draft],
        stock_file :=
          save_csv_data fs_ok (stock_file s) (map stock_row (stock s @ [draft])) stock_columns\<rparr>,
      [Added_stock (Explosive_Type draft) (Quantity draft)])"
  using assms by (simp add: add_stock_form_def Let_def)

lemma add_stock_form_rejected:
  assumes "Serial_No draft = [] \<or> Quantity draft \<le> 0"
  shows "add_stock_form fs_ok True draft s = (s, [Enter_serial_and_quantity])"
  using assms by (auto simp: add_stock_form_def)




text \<open>
  C5. A submitted stock draft is appended, and the stock file rewritten from the whole new
  collection, exactly when its serial number is non-empty and its quantity is strictly
  positive. Otherwise the form answers with its warning and the state (the stock list and
  the file included) is unchanged. No other condition is checked, so a serial number that
  is already in the list is accepted again.
\<close>

theorem add_stock_form_validation:
  "(Serial_No draft \<noteq> [] \<and> 0 < Quantity draft \<longrightarrow>
      stock (fst (add_stock_form fs_ok True draft s)) = stock s @ [draft]
      \<and> stock_file (fst (add_stock_form True True draft s)) =
          Some (stock_columns, map stock_line (stock s @ [draft]))
      \<and> snd (add_stock_form fs_ok True draft s) =
          [Added_stock (Explosive_Type draft) (Quantity draft)])
   \<and> (\<not> (Serial_No draft \<noteq> [] \<and> 0 < Quantity draft) \<longrightarrow>
        add_stock_form fs_ok True draft s = (s, [Enter_serial_and_quantity])
        \<and> is_warning Enter_serial_and_quantity)
   \<and> (stock (fst (add_stock_form fs_ok True draft s)) = stock s @ [draft]
        \<longleftrightarrow> Serial_No draft \<noteq> [] \<and> 0 < Quantity draft)"
proof (cases "Serial_No draft \<noteq> [] \<and> 0 < Quantity draft")
  case True
  then show ?thesis by (simp add: add_stock_form_accepted save_stock_snoc)
next
  case False
  then have "Serial_No draft = [] \<or> Quantity draft \<le> 0" by auto
  then have "add_stock_form fs_ok True draft s = (s, [Enter_serial_and_quantity])"
    by (rule add_stock_form_rejected)
  with False show ?thesis by simp
qed

theorem add_stock_form_validation_witness:
  "\<not> (Serial_No (example_receipt [] 5) \<noteq> [] \<and> 0 < Quantity (example_receipt [] 5))
   \<and> add_stock_form True True (example_receipt [] 5) initial_state =
       (initial_state, [Enter_serial_and_quantity])
   \<and> Serial_No (example_receipt ''S1'' 5) \<noteq> [] \<and> 0 < Quantity (example_receipt ''S1'' 5)
   \<and> stock (fst (add_stock_form True True (example_receipt ''S1'' 5)
        (initial_state\<lparr>stock := [example_receipt ''S1'' 9]\<rparr>))) =
       [example_receipt ''S1'' 9, example_receipt ''S1'' 5]
   \<and> stock_file (fst (add_stock_form True True (example_receipt ''S1'' 5)
        (initial_state\<lparr>stock := [example_receipt ''S1'' 9]\<rparr>))) =
       Some ([''Serial No'', ''Receiving Date'', ''Explosive Type'', ''Quantity''],
             [[Str ''S1'', Day (2024, 3, 1), Str ''Detonators'', Num 9],
              [Str ''S1'', Day (2024, 3, 1), Str ''Detonators'', Num 5]])"
  using add_stock_form_validation [of "example_receipt [] 5" True initial_state]
    add_stock_form_validation [of "example_receipt ''S1'' 5" True
      "initial_state\<lparr>stock := [example_receipt ''S1'' 9]\<rparr>"]
  by (simp add: example_receipt_def stock_columns_def stock_line_def)

text \<open>
  C8 (as amended). For a non-empty collection a successful save writes the kind's fixed
  header and one line per record with the values in exactly that column order, whatever
  the key order of the dictionaries is, as long as every requested column is a key of some
  row; the rows of the two forms always qualify. For the empty collection the frame has no
  columns, the projection is skipped, and the file is written with no header at all.
\<close>

theorem save_csv_data_column_order:
  "(recs \<noteq> [] \<longrightarrow>
      save_csv_data True file (map issuance_row recs) issuance_columns =
        Some (issuance_columns, map issuance_line recs))
   \<and> (receipts \<noteq> [] \<longrightarrow>
      save_csv_data True file (map stock_row receipts) stock_columns =
        Some (stock_columns, map stock_line receipts))
   \<and> (rows \<noteq> [] \<and> set cols \<subseteq> (\<Union>r\<in>set rows. fst ` set r) \<longrightarrow>
      save_csv_data True file rows cols = Some (cols, map (\<lambda>r. map (cell_of r) cols) rows))
   \<and> save_csv_data True file [] cols = Some ([], [])"
  by (simp add: save_issuance save_stock save_csv_data_projects save_csv_data_empty)

theorem save_csv_data_column_order_witness:
  "[example_entry ''Mine1'' (2024, 3, 14) 5] \<noteq> []
   \<and> save_csv_data True None (map issuance_row [example_entry ''Mine1'' (2024, 3, 14) 5])
        issuance_columns =
       Some ([''Date'', ''Mine'', ''Issued By'', ''Received By'', ''Remarks'',
              ''Wabox Cartridges'', ''Detonators'', ''Safety Fuse (m)''],
             [[Day (2024, 3, 14), Str ''Mine1'', Str ''Asha'', Str ''Ravi'', Str [],
               Num 5, Num 0, Num 0]])
   \<and> [example_receipt ''S1'' 9] \<noteq> []
   \<and> save_csv_data True None (map stock_row [example_receipt ''S1'' 9]) stock_columns =
       Some ([''Serial No'', ''Receiving Date'', ''Explosive Type'', ''Quantity''],
             [[Str ''S1'', Day (2024, 3, 1), Str ''Detonators'', Num 9]])
   \<and> [[(''Quantity'', Num 9), (''Serial No'', Str ''S1'')]] \<noteq> []
   \<and> set [''Serial No'', ''Quantity''] \<subseteq>
        (\<Union>r\<in>set [[(''Quantity'', Num 9), (''Serial No'', Str ''S1'')]]. fst ` set r)
   \<and> save_csv_data True None [[(''Quantity'', Num 9), (''Serial No'', Str ''S1'')]]
        [''Serial No'', ''Quantity''] =
       Some ([''Serial No'', ''Quantity''], [[Str ''S1'', Num 9]])"
  using save_csv_data_column_order
    [of "[example_entry ''Mine1'' (2024, 3, 14) 5]" None "[example_receipt ''S1'' 9]"
        "[[(''Quantity'', Num 9), (''Serial No'', Str ''S1'')]]" "[''Serial No'', ''Quantity'']"]
  by (simp add: issuance_columns_def issuance_line_def stock_columns_def stock_line_def
      example_entry_def example_receipt_def cell_of_def)

theorem save_csv_data_empty_has_no_header:
  "save_csv_data True None [] issuance_columns \<noteq> Some (issuance_columns, [])
   \<and> save_csv_data True None [] stock_columns \<noteq> Some (stock_columns, [])"
  by (simp add: save_csv_data_empty issuance_columns_def stock_columns_def)

text \<open>
  C10. Submitting the add-mine form with an empty name changes nothing and shows no
  message. Typing the empty name, or the mine's current name, into a rename box changes
  nothing and shows no message either. The rename block changes the state exactly when the
  typed name is non-empty and differs from the current name of that registry entry; it then
  replaces the entry in place and rewrites the mine of every issuance entry of the old
  name.
\<close>

theorem empty_or_unchanged_name_is_noop:
  "add_mine_form True [] s = (s, [])
   \<and> renameMine i [] s = (s, [])
   \<and> (i < length (mines s) \<longrightarrow> renameMine i (mines s ! i) s = (s, []))
   \<and> renameMine i new_name s =
       (if i < length (mines s) \<and> new_name \<noteq> mines s ! i \<and> new_name \<noteq> [] then
          (s\<lparr>data := map (\<lambda>e. if Mine e = mines s ! i then e\<lparr>Mine := new_name\<rparr> else e)
                       (data s),
             mines := (mines s)[i := new_name]\<rparr>,
           [Renamed (mines s ! i) new_name])
        else (s, []))
   \<and> (i < length (mines s) \<and> new_name \<noteq> mines s ! i \<and> new_name \<noteq> [] \<longrightarrow>
        mines (fst (renameMine i new_name s)) \<noteq> mines s)"
proof (intro conjI impI)
  show "add_mine_form True [] s = (s, [])"
    by (simp add: add_mine_form_def)
next
  show "renameMine i [] s = (s, [])"
    by (simp add: renameMine_effect)
next
  assume "i < length (mines s)"
  then show "renameMine i (mines s ! i) s = (s, [])"
    by (simp add: renameMine_effect)
next
  show "renameMine i new_name s =
       (if i < length (mines s) \<and> new_name \<noteq> mines s ! i \<and> new_name \<noteq> [] then
          (s\<lparr>data := map (\<lambda>e. if Mine e = mines s ! i then e\<lparr>Mine := new_name\<rparr> else e)
                       (data s),
             mines := (mines s)[i := new_name]\<rparr>,
           [Renamed (mines s ! i) new_name])
        else (s, []))"
    by (rule renameMine_effect)
next
  assume a: "i < length (mines s) \<and> new_name \<noteq> mines s ! i \<and> new_name \<noteq> []"
  then have "(mines s)[i := new_name] ! i \<noteq> mines s ! i" by simp
  then have "(mines s)[i := new_name] \<noteq> mines s" by metis
  with a show "mines (fst (renameMine i new_name s)) \<noteq> mines s"
    by (simp add: renameMine_effect)
qed

theorem empty_or_unchanged_name_is_noop_witness:
  "(1::nat) < length (mines example_log)
   \<and> renameMine 1 ''Mine2'' example_log = (example_log, [])
   \<and> renameMine 1 [] example_log = (example_log, [])
   \<and> ''South Pit'' \<noteq> mines example_log ! 1
   \<and> mines (fst (renameMine 1 ''South Pit'' example_log)) = [''Mine1'', ''South Pit'', ''Mine3'']
   \<and> map Mine (data (fst (renameMine 1 ''South Pit'' example_log))) =
       [''Mine1'', ''Mine1'', ''South Pit'']
   \<and> snd (renameMine 1 ''South Pit'' example_log) = [Renamed ''Mine2'' ''South Pit'']"
  using empty_or_unchanged_name_is_noop [of example_log 1 "''Mine2''"]
    empty_or_unchanged_name_is_noop [of example_log 1 "''South Pit''"]
  by (simp add: example_log_def initial_state_def example_entry_def)

section \<open>Properties of the registry\<close>

lemma add_mine_form_rejects_duplicate:
  "new_mine \<noteq> [] \<Longrightarrow> new_mine \<in> set (mines s) \<Longrightarrow>
     add_mine_form True new_mine s = (s, [Mine_already_exists])"
  by (auto simp: add_mine_form_def)

lemma add_mine_form_keeps_distinct:
  "distinct (mines s) \<Longrightarrow> distinct (mines (fst (add_mine_form b new_mine s)))"
  by (simp add: add_mine_form_def)

text \<open>
  C3, evaluated on the code. Typing the name of another registered mine into a rename box
  is accepted: from the initial registry, renaming the first mine to \<open>Mine2\<close> leaves the
  registry with \<open>Mine2\<close> twice. The add form refuses the same name.
\<close>

theorem rename_to_registered_name_duplicates:
  "distinct (mines initial_state)
   \<and> add_mine_form True ''Mine2'' initial_state = (initial_state, [Mine_already_exists])
   \<and> mines (fst (renameMine 0 ''Mine2'' initial_state)) = [''Mine2'', ''Mine2'', ''Mine3'']
   \<and> \<not> distinct (mines (fst (renameMine 0 ''Mine2'' initial_state)))"
  by (simp add: renameMine_effect add_mine_form_def initial_state_def)

section \<open>Properties of the grouped reports\<close>

lemma groupby_sum_set:
  "set (groupby_sum key rows) =
     (\<lambda>r. (key r, sum_columns (filter (\<lambda>x. key x = key r) rows))) ` set rows"
  by (auto simp: groupby_sum_def)

lemma groupby_sum_sorted: "sorted (map fst (groupby_sum key rows))"
  by (simp add: groupby_sum_keys)

lemma groupby_sum_distinct: "distinct (map fst (groupby_sum key rows))"
  by (simp add: groupby_sum_keys)

lemma month_mine_rows_swapped:
  "set (map (\<lambda>((p, m), t). ((m, p), t))
         (groupby_sum (\<lambda>r. (to_period_M (Date r), Mine r)) rows)) =
   set (groupby_sum (\<lambda>r. (Mine r, to_period_M (Date r))) rows)"
proof -
  have same: "filter (\<lambda>x. (to_period_M (Date x), Mine x) = (to_period_M (Date r), Mine r)) rows =
              filter (\<lambda>x. (Mine x, to_period_M (Date x)) = (Mine r, to_period_M (Date r))) rows"
    for r
    by (rule filter_cong) auto
  show ?thesis
    by (simp only: set_map groupby_sum_set image_image same) simp
qed

lemma month_mine_lookup_swapped:
  "map_of (groupby_sum (\<lambda>r. (to_period_M (Date r), Mine r)) rows) (p, m) =
   map_of (groupby_sum (\<lambda>r. (Mine r, to_period_M (Date r))) rows) (m, p)"
proof -
  have same: "filter (\<lambda>x. (to_period_M (Date x), Mine x) = (p, m)) rows =
              filter (\<lambda>x. (Mine x, to_period_M (Date x)) = (m, p)) rows"
    by (rule filter_cong) auto
  have mem: "(p, m) \<in> set (map (\<lambda>r. (to_period_M (Date r), Mine r)) rows) \<longleftrightarrow>
             (m, p) \<in> set (map (\<lambda>r. (Mine r, to_period_M (Date r))) rows)"
    by auto
  show ?thesis
    by (simp only: groupby_sum_lookup same mem)
qed

text \<open>
  C9. The Monthly and the Mine-wise report hold the same aggregate rows: swapping the two
  key columns of the Monthly rows gives exactly the set of Mine-wise rows, so for every
  (mine, month) pair both reports carry the same sums (and both have a row for it exactly
  when the data has an entry of that mine in that month). They differ in the order of the
  key columns and of the rows: each report has one row per key, in ascending lexicographic
  order of its own key, month first in Monthly and mine first in Mine-wise.
\<close>

theorem monthly_and_mine_wise_same_rows:
  "set (map (\<lambda>((p, m), t). ((m, p), t)) (Monthly (get_reports rows))) =
     set (Mine_wise (get_reports rows))
   \<and> (\<forall>p m. map_of (Monthly (get_reports rows)) (p, m) =
              map_of (Mine_wise (get_reports rows)) (m, p))
   \<and> (\<forall>p m. map_of (Monthly (get_reports rows)) (p, m) =
         (if (p, m) \<in> set (map (\<lambda>r. (to_period_M (Date r), Mine r)) rows)
          then Some (sum_columns
                 (filter (\<lambda>r. to_period_M (Date r) = p \<and> Mine r = m) rows))
          else None))
   \<and> sorted (map fst (Monthly (get_reports rows)))
   \<and> distinct (map fst (Monthly (get_reports rows)))
   \<and> sorted (map fst (Mine_wise (get_reports rows)))
   \<and> distinct (map fst (Mine_wise (get_reports rows)))"
proof (cases "rows = []")
  case True
  then show ?thesis by (simp add: get_reports_def)
next
  case False
  then have m: "Monthly (get_reports rows) =
                  groupby_sum (\<lambda>r. (to_period_M (Date r), Mine r)) rows"
    and w: "Mine_wise (get_reports rows) =
              groupby_sum (\<lambda>r. (Mine r, to_period_M (Date r))) rows"
    by (simp_all add: get_reports_def)
  have look: "map_of (groupby_sum (\<lambda>r. (to_period_M (Date r), Mine r)) rows) (p, m) =
         (if (p, m) \<in> set (map (\<lambda>r. (to_period_M (Date r), Mine r)) rows)
          then Some (sum_columns
                 (filter (\<lambda>r. to_period_M (Date r) = p \<and> Mine r = m) rows))
          else None)" for p m
    by (simp add: groupby_sum_lookup)
  show ?thesis
    unfolding m w
  proof (intro conjI allI)
    show "set (map (\<lambda>((p, m), t). ((m, p), t))
              (groupby_sum (\<lambda>r. (to_period_M (Date r), Mine r)) rows)) =
          set (groupby_sum (\<lambda>r. (Mine r, to_period_M (Date r))) rows)"
      by (rule month_mine_rows_swapped)
  next
    fix p m
    show "map_of (groupby_sum (\<lambda>r. (to_period_M (Date r), Mine r)) rows) (p, m) =
          map_of (groupby_sum (\<lambda>r. (Mine r, to_period_M (Date r))) rows) (m, p)"
      by (rule month_mine_lookup_swapped)
  next
    fix p m
    show "map_of (groupby_sum (\<lambda>r. (to_period_M (Date r), Mine r)) rows) (p, m) =
         (if (p, m) \<in> set (map (\<lambda>r. (to_period_M (Date r), Mine r)) rows)
          then Some (sum_columns
                 (filter (\<lambda>r. to_period_M (Date r) = p \<and> Mine r = m) rows))
          else None)"
      by (rule look)
  qed (rule groupby_sum_sorted groupby_sum_distinct)+
qed

theorem monthly_and_mine_wise_same_rows_witness:
  "Monthly (get_reports (data example_log)) =
     [(((2024, 3), ''Mine1''), (5, 0, 0)), (((2024, 3), ''Mine2''), (2, 0, 0)),
      (((2024, 4), ''Mine1''), (3, 0, 0))]
   \<and> set (Mine_wise (get_reports (data example_log))) =
       {((''Mine1'', (2024, 3)), (5, 0, 0)), ((''Mine2'', (2024, 3)), (2, 0, 0)),
        ((''Mine1'', (2024, 4)), (3, 0, 0))}"
proof -
  have monthly: "Monthly (get_reports (data example_log)) =
     [(((2024, 3), ''Mine1''), (5, 0, 0)), (((2024, 3), ''Mine2''), (2, 0, 0)),
      (((2024, 4), ''Mine1''), (3, 0, 0))]"
    by code_simp
  from monthly_and_mine_wise_same_rows [of "data example_log"]
  have "set (Mine_wise (get_reports (data example_log))) =
        set (map (\<lambda>((p, m), t). ((m, p), t)) (Monthly (get_reports (data example_log))))"
    by simp
  then have "set (Mine_wise (get_reports (data example_log))) =
       {((''Mine1'', (2024, 3)), (5, 0, 0)), ((''Mine2'', (2024, 3)), (2, 0, 0)),
        ((''Mine1'', (2024, 4)), (3, 0, 0))}"
    unfolding monthly by simp
  with monthly show ?thesis by (intro conjI)
qed

section \<open>Properties of persistence\<close>

lemma renameMine_keeps_files:
  "issuance_file (fst (renameMine i new_name s)) = issuance_file s
   \<and> stock_file (fst (renameMine i new_name s)) = stock_file s"
  by (simp add: renameMine_effect)

lemma add_mine_form_keeps_files:
  "issuance_file (fst (add_mine_form b new_mine s)) = issuance_file s
   \<and> stock_file (fst (add_mine_form b new_mine s)) = stock_file s"
  by (simp add: add_mine_form_def)

text \<open>
  C7, evaluated on the code. In a fresh session one entry for \<open>Mine1\<close> is added and saved;
  then the first mine is renamed to \<open>MineX\<close>. The rename rewrites the entry in memory but
  writes no file: the issuance file still holds the line with \<open>Mine1\<close> and differs from
  what a save of the current collection would write.
\<close>

theorem rename_leaves_issuance_file_stale:
  "issuance_file (fst (entry_form True True (example_entry ''Mine1'' (2024, 3, 14) 5)
       initial_state)) =
     Some (issuance_columns, [issuance_line (example_entry ''Mine1'' (2024, 3, 14) 5)])
   \<and> data (fst (renameMine 0 ''MineX''
        (fst (entry_form True True (example_entry ''Mine1'' (2024, 3, 14) 5) initial_state)))) =
       [example_entry ''MineX'' (2024, 3, 14) 5]
   \<and> issuance_file (fst (renameMine 0 ''MineX''
        (fst (entry_form True True (example_entry ''Mine1'' (2024, 3, 14) 5) initial_state)))) =
       Some (issuance_columns, [issuance_line (example_entry ''Mine1'' (2024, 3, 14) 5)])
   \<and> save_csv_data True
        (issuance_file (fst (renameMine 0 ''MineX''
          (fst (entry_form True True (example_entry ''Mine1'' (2024, 3, 14) 5) initial_state)))))
        (map issuance_row (data (fst (renameMine 0 ''MineX''
          (fst (entry_form True True (example_entry ''Mine1'' (2024, 3, 14) 5) initial_state))))))
        issuance_columns =
       Some (issuance_columns, [issuance_line (example_entry ''MineX'' (2024, 3, 14) 5)])
   \<and> issuance_line (example_entry ''Mine1'' (2024, 3, 14) 5) \<noteq>
       issuance_line (example_entry ''MineX'' (2024, 3, 14) 5)"
proof -
  let ?e = "example_entry ''Mine1'' (2024, 3, 14) 5"
  let ?s1 = "fst (entry_form True True ?e initial_state)"
  let ?s2 = "fst (renameMine 0 ''MineX'' ?s1)"
  have s1: "?s1 = initial_state\<lparr>data := [?e],
              issuance_file := Some (issuance_columns, [issuance_line ?e])\<rparr>"
    using save_issuance [of "[?e]" None]
    by (simp add: entry_form_submitted initial_state_def)
  have file1: "issuance_file ?s1 = Some (issuance_columns, [issuance_line ?e])"
    by (simp add: s1)
  have data2: "data ?s2 = [example_entry ''MineX'' (2024, 3, 14) 5]"
    unfolding s1 by (simp add: renameMine_effect initial_state_def example_entry_def)
  have file2: "issuance_file ?s2 = Some (issuance_columns, [issuance_line ?e])"
    by (simp only: renameMine_keeps_files file1)
  have resave: "save_csv_data True (issuance_file ?s2) (map issuance_row (data ?s2))
        issuance_columns =
       Some (issuance_columns, [issuance_line (example_entry ''MineX'' (2024, 3, 14) 5)])"
    unfolding data2 using save_issuance [of "[example_entry ''MineX'' (2024, 3, 14) 5]"]
    by simp
  have differ: "issuance_line ?e \<noteq> issuance_line (example_entry ''MineX'' (2024, 3, 14) 5)"
    by (simp add: issuance_line_def example_entry_def)
  from file1 data2 file2 resave differ show ?thesis
    by (intro conjI)
qed

end
